theory Spec2Isabelle
  imports Complex_Main
begin

section \<open>Data model\<close>

text \<open>
  The program is one Python function, \<^verbatim>\<open>simulate_pid_with_metrics(Kp, Ki, Kd, Gs, t)\<close>
  (file \<^verbatim>\<open>Python_Implementation/PID_controller.py\<close>), written against the external
  package \<^verbatim>\<open>control\<close> (imported as \<^verbatim>\<open>ct\<close>).

  Gains and samples are modelled as real numbers, so the tests \<^verbatim>\<open>Kp == 0\<close> are equalities
  of reals. A transfer function is the pair of coefficient lists handed to \<^verbatim>\<open>ct.tf\<close>,
  highest degree first: \<open>TF [Kd, Kp] [1]\<close> stands for the call \<^verbatim>\<open>ct.tf([Kd, Kp], [1])\<close>.
\<close>

datatype tf = TF (num: "real list") (den: "real list")

text \<open>
  Errors are values. \<open>exn\<close> stands for the instances of Python's \<^verbatim>\<open>Exception\<close> class, the
  ones the clause \<^verbatim>\<open>except Exception\<close> of the source catches: \<open>IndexError\<close> is what
  \<^verbatim>\<open>response[-1]\<close> raises on an empty array, \<open>LibraryError\<close> is any exception raised inside the
  package, tagged with its message.
\<close>

datatype exn = IndexError | LibraryError string

type_synonym 'a result = "exn + 'a"

text \<open>The dictionary \<^verbatim>\<open>info\<close> of the source: metric names to values.\<close>

type_synonym info = "string \<rightharpoonup> real"

text \<open>
  The package is not part of the program, so its four operations that the function calls
  are parameters of the model. Each of them may raise.
  \<^item> \<open>mul C G\<close> is \<^verbatim>\<open>C * G\<close>;
  \<^item> \<open>feedback S k\<close> is \<^verbatim>\<open>ct.feedback(S, k)\<close>;
  \<^item> \<open>step_response S t\<close> is \<^verbatim>\<open>ct.step_response(S, T=t)\<close>, unpacked into the pair
    \<^verbatim>\<open>time, response\<close>;
  \<^item> \<open>step_info S t th\<close> is \<^verbatim>\<open>ct.step_info(S, T=t, SettlingTimeThreshold=th)\<close>.
\<close>

record control =
  mul :: "tf \<Rightarrow> tf \<Rightarrow> tf result"
  feedback :: "tf \<Rightarrow> real \<Rightarrow> tf result"
  step_response :: "tf \<Rightarrow> real list \<Rightarrow> (real list \<times> real list) result"
  step_info :: "tf \<Rightarrow> real list \<Rightarrow> real \<Rightarrow> info result"

section \<open>The function \<^verbatim>\<open>simulate_pid_with_metrics\<close>\<close>

text \<open>
  Lines 11 to 23: the local variable \<^verbatim>\<open>Cs\<close>. It stays unassigned (\<open>None\<close>) in the open-loop
  branch of line 11; otherwise the chain of lines 16 to 23 picks the call of \<^verbatim>\<open>ct.tf\<close>.
\<close>

definition Cs :: "real \<Rightarrow> real \<Rightarrow> real \<Rightarrow> tf option" where
  "Cs Kp Ki Kd =
     (if Kp = 0 \<and> Ki = 0 \<and> Kd = 0 then None
      else if Ki = 0 \<and> Kd = 0 then Some (TF [Kp] [1])
      else if Ki = 0 \<and> Kd \<noteq> 0 then Some (TF [Kd, Kp] [1])
      else if Kd = 0 then Some (TF [Kp, Ki] [1, 0])
      else Some (TF [Kd, Kp, Ki] [1, 0]))"

text \<open>
  Lines 11 to 27: the local variable \<^verbatim>\<open>system_to_sim\<close>, the plant itself when no controller
  is built and \<^verbatim>\<open>ct.feedback(Cs * Gs, 1)\<close> otherwise. An exception of the product or of the
  feedback reduction leaves the function.
\<close>

definition system_to_sim :: "control \<Rightarrow> real \<Rightarrow> real \<Rightarrow> real \<Rightarrow> tf \<Rightarrow> tf result" where
  "system_to_sim L Kp Ki Kd Gs =
     (case Cs Kp Ki Kd of
        None \<Rightarrow> Inr Gs
      | Some C \<Rightarrow>
          (case mul L C Gs of
             Inl e \<Rightarrow> Inl e
           | Inr CG \<Rightarrow> feedback L CG 1))"

text \<open>\<^verbatim>\<open>response[-1]\<close>: the last sample, \<^verbatim>\<open>IndexError\<close> on an empty array.\<close>

definition final_value :: "real list \<Rightarrow> real result" where
  "final_value response = (if response = [] then Inl IndexError else Inr (last response))"

text \<open>
  Lines 35 to 41, the body of the \<^verbatim>\<open>try\<close>: \<^verbatim>\<open>step_info\<close> with the 2% settling threshold,
  then the entry \<^verbatim>\<open>SteadyStateError\<close> stored into the dictionary it returned.
\<close>

definition try_body :: "control \<Rightarrow> tf \<Rightarrow> real list \<Rightarrow> real list \<Rightarrow> info result" where
  "try_body L sys t response =
     (case step_info L sys t 0.02 of
        Inl e \<Rightarrow> Inl e
      | Inr info \<Rightarrow>
          (case final_value response of
             Inl e \<Rightarrow> Inl e
           | Inr fv \<Rightarrow> Inr (info(''SteadyStateError'' \<mapsto> 1.0 - fv))))"

text \<open>
  Lines 44 to 48, the handler. The \<^verbatim>\<open>print\<close> of line 44 writes to standard output only and
  is not part of the returned value. \<^verbatim>\<open>response[-1]\<close> is read again, outside any \<^verbatim>\<open>try\<close>.
\<close>

definition except_body :: "real list \<Rightarrow> info result" where
  "except_body response =
     (case final_value response of
        Inl e \<Rightarrow> Inl e
      | Inr fv \<Rightarrow>
          Inr [''SteadyStateError'' \<mapsto> 1.0 - fv, ''Overshoot'' \<mapsto> 0.0,
               ''SettlingTime'' \<mapsto> 0.0, ''RiseTime'' \<mapsto> 0.0])"

text \<open>
  The whole function. The step response of line 30 is computed before the \<^verbatim>\<open>try\<close>, so
  its exception leaves the function; any exception of the \<^verbatim>\<open>try\<close> body runs the handler.
\<close>

definition simulate_pid_with_metrics ::
  "control \<Rightarrow> real \<Rightarrow> real \<Rightarrow> real \<Rightarrow> tf \<Rightarrow> real list \<Rightarrow> (real list \<times> real list \<times> info) result" where
  "simulate_pid_with_metrics L Kp Ki Kd Gs t =
     (case system_to_sim L Kp Ki Kd Gs of
        Inl e \<Rightarrow> Inl e
      | Inr sys \<Rightarrow>
          (case step_response L sys t of
             Inl e \<Rightarrow> Inl e
           | Inr (time, response) \<Rightarrow>
               (case try_body L sys t response of
                  Inr info \<Rightarrow> Inr (time, response, info)
                | Inl e \<Rightarrow>
                    (case except_body response of
                       Inl e' \<Rightarrow> Inl e'
                     | Inr info \<Rightarrow> Inr (time, response, info)))))"

section \<open>What the package is expected to return\<close>

text \<open>
  The dictionary of \<^verbatim>\<open>ct.step_info\<close> carries the entries \<^verbatim>\<open>RiseTime\<close>, \<^verbatim>\<open>SettlingTime\<close> and
  \<^verbatim>\<open>Overshoot\<close> (among others, such as \<^verbatim>\<open>Peak\<close>). The program relies on it: line 91 reads
  \<^verbatim>\<open>info_p["Overshoot"]\<close>, line 158 reads \<^verbatim>\<open>info_un['SettlingTime']\<close>.
\<close>

definition step_info_keys :: "control \<Rightarrow> bool" where
  "step_info_keys L \<longleftrightarrow>
     (\<forall>S t th d. step_info L S t th = Inr d \<longrightarrow>
        {''Overshoot'', ''SettlingTime'', ''RiseTime''} \<subseteq> dom d)"

text \<open>The four keys of the metrics record.\<close>

definition required_keys :: "string set" where
  "required_keys = {''Overshoot'', ''SettlingTime'', ''RiseTime'', ''SteadyStateError''}"

section \<open>Transfer-function algebra\<close>

text \<open>
  Modelled from the spec: the package's product and feedback reduction of transfer
  functions, which are not part of the program. The product convolves numerators and
  denominators; unity negative feedback turns \<open>n / d\<close> into \<open>n / (d + n)\<close>. Coefficient
  lists are highest degree first, so a sum aligns them at their last elements. A
  denominator is never the zero polynomial: a transfer function that would have one is
  refused with an exception, the product of a factor that has one as well.
\<close>

definition zero_poly :: "real list \<Rightarrow> bool" where
  "zero_poly p \<longleftrightarrow> list_all (\<lambda>c. c = 0) p"

definition polyadd :: "real list \<Rightarrow> real list \<Rightarrow> real list" where
  "polyadd p q =
     map2 (+) (replicate (length q - length p) 0 @ p) (replicate (length p - length q) 0 @ q)"

fun polymul :: "real list \<Rightarrow> real list \<Rightarrow> real list" where
  "polymul [] q = []"
| "polymul (a # p) q = polyadd (map ((*) a) q @ replicate (length p) 0) (polymul p q)"

definition polyval :: "real list \<Rightarrow> real \<Rightarrow> real" where
  "polyval p s = foldl (\<lambda>acc c. acc * s + c) 0 p"

definition tf_value :: "tf \<Rightarrow> real \<Rightarrow> real" where
  "tf_value S s = polyval (num S) s / polyval (den S) s"

definition tf_mul :: "tf \<Rightarrow> tf \<Rightarrow> tf result" where
  "tf_mul C G =
     (if zero_poly (den C) \<or> zero_poly (den G) then Inl (LibraryError ''zero denominator'')
      else Inr (TF (polymul (num C) (num G)) (polymul (den C) (den G))))"

definition tf_feedback :: "tf \<Rightarrow> real \<Rightarrow> tf result" where
  "tf_feedback S k =
     (let d = polyadd (den S) (map ((*) k) (num S))
      in if zero_poly d then Inl (LibraryError ''zero denominator'') else Inr (TF (num S) d))"

text \<open>
  A stand-in for the solver, small enough to run the model on concrete inputs: the response
  sits at the steady-state (DC) value of the system at every grid point, an empty grid is
  refused, and the metrics are refused when the system has no finite DC value (a pole at
  the origin).
\<close>

definition dc_value :: "tf \<Rightarrow> real option" where
  "dc_value S =
     (if den S = [] \<or> last (den S) = 0 then None
      else Some ((if num S = [] then 0 else last (num S)) / last (den S)))"

definition flat_step_response :: "tf \<Rightarrow> real list \<Rightarrow> (real list \<times> real list) result" where
  "flat_step_response S t =
     (if t = [] then Inl (LibraryError ''empty time vector'')
      else Inr (t, map (\<lambda>_. case dc_value S of None \<Rightarrow> 0 | Some g \<Rightarrow> g) t))"

definition flat_step_info :: "tf \<Rightarrow> real list \<Rightarrow> real \<Rightarrow> info result" where
  "flat_step_info S t th =
     (case dc_value S of
        None \<Rightarrow> Inl (LibraryError ''no steady state'')
      | Some g \<Rightarrow>
          Inr [''RiseTime'' \<mapsto> 0, ''SettlingTime'' \<mapsto> 0, ''Overshoot'' \<mapsto> 0,
               ''Peak'' \<mapsto> g, ''SteadyStateValue'' \<mapsto> g])"

definition flat_control :: control where
  "flat_control =
     \<lparr>mul = tf_mul, feedback = tf_feedback,
      step_response = flat_step_response, step_info = flat_step_info\<rparr>"

text \<open>The plant of line 59, \<open>5 / (s\<^sup>2 + 11 s + 10)\<close>.\<close>

definition Gs_motor :: tf where
  "Gs_motor = TF [5] [1, 11, 10]"

section \<open>The function over a package that need not be deterministic\<close>

text \<open>
  To speak about two calls with the same arguments, the package operations are taken as
  relations between arguments and outcomes: \<open>step_response_rel R S t r\<close> says that
  \<^verbatim>\<open>ct.step_response(S, T=t)\<close> may end with outcome \<open>r\<close>. The function is then a relation
  between its arguments and its outcomes, with one rule for each way through its body.
\<close>

record control_rel =
  mul_rel :: "tf \<Rightarrow> tf \<Rightarrow> tf result \<Rightarrow> bool"
  feedback_rel :: "tf \<Rightarrow> real \<Rightarrow> tf result \<Rightarrow> bool"
  step_response_rel :: "tf \<Rightarrow> real list \<Rightarrow> (real list \<times> real list) result \<Rightarrow> bool"
  step_info_rel :: "tf \<Rightarrow> real list \<Rightarrow> real \<Rightarrow> info result \<Rightarrow> bool"

inductive system_to_sim_rel ::
  "control_rel \<Rightarrow> real \<Rightarrow> real \<Rightarrow> real \<Rightarrow> tf \<Rightarrow> tf result \<Rightarrow> bool" where
  open_loop: "Cs Kp Ki Kd = None \<Longrightarrow> system_to_sim_rel R Kp Ki Kd Gs (Inr Gs)"
| mul_raises:
    "Cs Kp Ki Kd = Some C \<Longrightarrow> mul_rel R C Gs (Inl e) \<Longrightarrow> system_to_sim_rel R Kp Ki Kd Gs (Inl e)"
| closed_loop:
    "Cs Kp Ki Kd = Some C \<Longrightarrow> mul_rel R C Gs (Inr CG) \<Longrightarrow> feedback_rel R CG 1 r \<Longrightarrow>
     system_to_sim_rel R Kp Ki Kd Gs r"

inductive try_body_rel ::
  "control_rel \<Rightarrow> tf \<Rightarrow> real list \<Rightarrow> real list \<Rightarrow> info result \<Rightarrow> bool" where
  info_raises: "step_info_rel R sys t 0.02 (Inl e) \<Longrightarrow> try_body_rel R sys t response (Inl e)"
| index_raises:
    "step_info_rel R sys t 0.02 (Inr info) \<Longrightarrow> final_value response = Inl e \<Longrightarrow>
     try_body_rel R sys t response (Inl e)"
| info_stored:
    "step_info_rel R sys t 0.02 (Inr info) \<Longrightarrow> final_value response = Inr fv \<Longrightarrow>
     try_body_rel R sys t response (Inr (info(''SteadyStateError'' \<mapsto> 1.0 - fv)))"

inductive simulate_pid_with_metrics_rel ::
  "control_rel \<Rightarrow> real \<Rightarrow> real \<Rightarrow> real \<Rightarrow> tf \<Rightarrow> real list \<Rightarrow>
   (real list \<times> real list \<times> info) result \<Rightarrow> bool" where
  system_raises:
    "system_to_sim_rel R Kp Ki Kd Gs (Inl e) \<Longrightarrow>
     simulate_pid_with_metrics_rel R Kp Ki Kd Gs t (Inl e)"
| solver_raises:
    "system_to_sim_rel R Kp Ki Kd Gs (Inr sys) \<Longrightarrow> step_response_rel R sys t (Inl e) \<Longrightarrow>
     simulate_pid_with_metrics_rel R Kp Ki Kd Gs t (Inl e)"
| primary:
    "system_to_sim_rel R Kp Ki Kd Gs (Inr sys) \<Longrightarrow>
     step_response_rel R sys t (Inr (time, response)) \<Longrightarrow>
     try_body_rel R sys t response (Inr info) \<Longrightarrow>
     simulate_pid_with_metrics_rel R Kp Ki Kd Gs t (Inr (time, response, info))"
| fallback:
    "system_to_sim_rel R Kp Ki Kd Gs (Inr sys) \<Longrightarrow>
     step_response_rel R sys t (Inr (time, response)) \<Longrightarrow>
     try_body_rel R sys t response (Inl e) \<Longrightarrow>
     except_body response = Inr info \<Longrightarrow>
     simulate_pid_with_metrics_rel R Kp Ki Kd Gs t (Inr (time, response, info))"
| handler_raises:
    "system_to_sim_rel R Kp Ki Kd Gs (Inr sys) \<Longrightarrow>
     step_response_rel R sys t (Inr (time, response)) \<Longrightarrow>
     try_body_rel R sys t response (Inl e) \<Longrightarrow>
     except_body response = Inl e' \<Longrightarrow>
     simulate_pid_with_metrics_rel R Kp Ki Kd Gs t (Inl e')"

text \<open>A package is deterministic when each operation has at most one outcome per argument.\<close>

definition deterministic :: "control_rel \<Rightarrow> bool" where
  "deterministic R \<longleftrightarrow>
     (\<forall>C G r r'. mul_rel R C G r \<longrightarrow> mul_rel R C G r' \<longrightarrow> r = r') \<and>
     (\<forall>S k r r'. feedback_rel R S k r \<longrightarrow> feedback_rel R S k r' \<longrightarrow> r = r') \<and>
     (\<forall>S t r r'. step_response_rel R S t r \<longrightarrow> step_response_rel R S t r' \<longrightarrow> r = r') \<and>
     (\<forall>S t th r r'. step_info_rel R S t th r \<longrightarrow> step_info_rel R S t th r' \<longrightarrow> r = r')"

text \<open>The outcome relations of a package given by functions.\<close>

definition graph_of :: "control \<Rightarrow> control_rel" where
  "graph_of L =
     \<lparr>mul_rel = (\<lambda>C G r. mul L C G = r),
      feedback_rel = (\<lambda>S k r. feedback L S k = r),
      step_response_rel = (\<lambda>S t r. step_response L S t = r),
      step_info_rel = (\<lambda>S t th r. step_info L S t th = r)\<rparr>"

section \<open>The paths through the function\<close>

text \<open>
  Every return of the function comes from one of two paths: the primary one, where
  \<^verbatim>\<open>step_info\<close> returned a dictionary, and the fallback one, where it raised. On both the
  solver has returned a response with a last sample.
\<close>

lemma simulate_returns_cases:
  assumes "simulate_pid_with_metrics L Kp Ki Kd Gs t = Inr (time, response, info)"
  shows "\<exists>sys. system_to_sim L Kp Ki Kd Gs = Inr sys \<and>
           step_response L sys t = Inr (time, response) \<and> response \<noteq> [] \<and>
           ((\<exists>d. step_info L sys t 0.02 = Inr d \<and>
                 info = d(''SteadyStateError'' \<mapsto> 1 - last response)) \<or>
            (\<exists>e. step_info L sys t 0.02 = Inl e \<and>
                 info = [''SteadyStateError'' \<mapsto> 1 - last response, ''Overshoot'' \<mapsto> 0,
                         ''SettlingTime'' \<mapsto> 0, ''RiseTime'' \<mapsto> 0]))"
  using assms
  by (auto simp: simulate_pid_with_metrics_def try_body_def except_body_def final_value_def
      split: sum.splits prod.splits if_splits)

lemma simulate_primary:
  assumes "system_to_sim L Kp Ki Kd Gs = Inr sys"
    and "step_response L sys t = Inr (time, response)"
    and "response \<noteq> []"
    and "step_info L sys t 0.02 = Inr d"
  shows "simulate_pid_with_metrics L Kp Ki Kd Gs t =
           Inr (time, response, d(''SteadyStateError'' \<mapsto> 1 - last response))"
  using assms
  by (simp add: simulate_pid_with_metrics_def try_body_def final_value_def)

lemma simulate_fallback:
  assumes "system_to_sim L Kp Ki Kd Gs = Inr sys"
    and "step_response L sys t = Inr (time, response)"
    and "response \<noteq> []"
    and "step_info L sys t 0.02 = Inl e"
  shows "simulate_pid_with_metrics L Kp Ki Kd Gs t =
           Inr (time, response,
                [''SteadyStateError'' \<mapsto> 1 - last response, ''Overshoot'' \<mapsto> 0,
                 ''SettlingTime'' \<mapsto> 0, ''RiseTime'' \<mapsto> 0])"
  using assms
  by (simp add: simulate_pid_with_metrics_def try_body_def except_body_def final_value_def)

section \<open>Facts about the transfer-function algebra\<close>

text \<open>Evaluation at a point turns the list operations into sums and products.\<close>

lemma foldl_horner_shift:
  "foldl (\<lambda>acc c. acc * s + c) a p = a * s ^ length p + foldl (\<lambda>acc c. acc * s + c) (0::real) p"
proof (induction p arbitrary: a)
  case Nil
  show ?case by simp
next
  case (Cons c p)
  have "foldl (\<lambda>acc c. acc * s + c) a (c # p) = foldl (\<lambda>acc c. acc * s + c) (a * s + c) p"
    by simp
  also have "\<dots> = (a * s + c) * s ^ length p + foldl (\<lambda>acc c. acc * s + c) 0 p"
    by (rule Cons.IH)
  also have "foldl (\<lambda>acc c. acc * s + c) 0 (c # p) = c * s ^ length p + foldl (\<lambda>acc c. acc * s + c) 0 p"
    using Cons.IH [of c] by simp
  ultimately show ?case by (simp add: algebra_simps)
qed

lemma polyval_Cons: "polyval (c # p) s = c * s ^ length p + polyval p s"
  using foldl_horner_shift [of s c p] by (simp add: polyval_def)

lemma polyval_Nil: "polyval [] s = 0"
  by (simp add: polyval_def)

lemma polyval_append: "polyval (p @ q) s = polyval p s * s ^ length q + polyval q s"
  by (induction p) (simp_all add: polyval_Cons polyval_Nil algebra_simps power_add)

lemma polyval_zeros: "polyval (replicate n 0) s = 0"
  by (induction n) (simp_all add: polyval_Cons polyval_Nil)

lemma polyval_smult: "polyval (map ((*) a) q) s = a * polyval q s"
  by (induction q) (simp_all add: polyval_Cons polyval_Nil algebra_simps)

lemma polyval_map2_add:
  "length p = length q \<Longrightarrow> polyval (map2 (+) p q) s = polyval p s + polyval q s"
  by (induction p q rule: list_induct2) (simp_all add: polyval_Cons polyval_Nil algebra_simps)

lemma polyval_polyadd: "polyval (polyadd p q) s = polyval p s + polyval q s"
proof -
  have "length (replicate (length q - length p) (0::real) @ p) =
        length (replicate (length p - length q) (0::real) @ q)"
    by simp
  then show ?thesis
    unfolding polyadd_def
    by (simp only: polyval_map2_add) (simp add: polyval_append polyval_zeros)
qed

lemma polyval_polymul: "polyval (polymul p q) s = polyval p s * polyval q s"
  by (induction p)
    (simp_all add: polyval_Cons polyval_Nil polyval_polyadd polyval_append polyval_zeros
      polyval_smult algebra_simps)

lemma unity_feedback_quotient:
  fixes n d :: real
  assumes "d \<noteq> 0"
  shows "(n / d) / (1 + n / d) = n / (d + n)"
proof -
  have "1 + n / d = (d + n) / d"
    using assms by (simp add: field_simps)
  then show ?thesis
    using assms by simp
qed

lemma feedback_of_product_value:
  assumes "tf_mul C G = Inr CG" and "tf_feedback CG 1 = Inr S"
    and "polyval (den C) s \<noteq> 0" and "polyval (den G) s \<noteq> 0"
    and "1 + tf_value C s * tf_value G s \<noteq> 0"
  shows "polyval (den S) s \<noteq> 0 \<and>
         tf_value S s = (tf_value C s * tf_value G s) / (1 + tf_value C s * tf_value G s)"
proof -
  let ?n = "polyval (num C) s * polyval (num G) s"
  let ?d = "polyval (den C) s * polyval (den G) s"
  have d: "?d \<noteq> 0" using assms(3,4) by simp
  have CG: "CG = TF (polymul (num C) (num G)) (polymul (den C) (den G))"
    using assms(1) by (simp add: tf_mul_def split: if_splits)
  have S: "S = TF (num CG) (polyadd (den CG) (map ((*) 1) (num CG)))"
    using assms(2) by (simp add: tf_feedback_def Let_def split: if_splits)
  have den: "polyval (den S) s = ?d + ?n"
    unfolding S CG by (simp add: polyval_polyadd polyval_polymul polyval_smult)
  have num: "polyval (num S) s = ?n"
    unfolding S CG by (simp add: polyval_polymul)
  have P: "tf_value C s * tf_value G s = ?n / ?d"
    by (simp add: tf_value_def)
  have "1 + ?n / ?d = (?d + ?n) / ?d"
    using d by (simp add: field_simps)
  with assms(5) d have pole: "?d + ?n \<noteq> 0"
    unfolding P by auto
  have "tf_value S s = ?n / (?d + ?n)"
    by (simp only: tf_value_def den num)
  then have "tf_value S s = (?n / ?d) / (1 + ?n / ?d)"
    using unity_feedback_quotient [OF d, of ?n] by (simp only:)
  then have "tf_value S s = (tf_value C s * tf_value G s) / (1 + tf_value C s * tf_value G s)"
    by (simp only: P)
  with pole den show ?thesis
    by simp
qed

lemma map_times_one: "map ((*) (1::real)) p = p"
  by (induction p) simp_all

lemma Cs_den_not_zero: "Cs Kp Ki Kd = Some C \<Longrightarrow> \<not> zero_poly (den C)"
  by (auto simp: Cs_def zero_poly_def split: if_splits)

section \<open>Facts about the relational form\<close>

text \<open>
  Over a package given by functions the relational form has exactly one outcome, the value
  of the function. Over a deterministic package each part of the body has at most one
  outcome.
\<close>

lemma system_to_sim_rel_graph_of:
  "system_to_sim_rel (graph_of L) Kp Ki Kd Gs r \<longleftrightarrow> system_to_sim L Kp Ki Kd Gs = r"
proof
  assume "system_to_sim_rel (graph_of L) Kp Ki Kd Gs r"
  then show "system_to_sim L Kp Ki Kd Gs = r"
    by cases (simp_all add: graph_of_def system_to_sim_def)
next
  assume "system_to_sim L Kp Ki Kd Gs = r"
  then have r: "r = system_to_sim L Kp Ki Kd Gs" by simp
  show "system_to_sim_rel (graph_of L) Kp Ki Kd Gs r"
  proof (cases "Cs Kp Ki Kd")
    case None
    then show ?thesis
      unfolding r by (simp add: system_to_sim_def open_loop)
  next
    case (Some C)
    show ?thesis
    proof (cases "mul L C Gs")
      case (Inl e)
      have "system_to_sim_rel (graph_of L) Kp Ki Kd Gs (Inl e)"
        by (rule mul_raises [OF Some]) (simp add: graph_of_def Inl)
      then show ?thesis
        unfolding r by (simp add: system_to_sim_def Some Inl)
    next
      case (Inr CG)
      have "system_to_sim_rel (graph_of L) Kp Ki Kd Gs (feedback L CG 1)"
        by (rule closed_loop [OF Some, of _ _ CG]) (simp_all add: graph_of_def Inr)
      then show ?thesis
        unfolding r by (simp add: system_to_sim_def Some Inr)
    qed
  qed
qed

lemma try_body_rel_graph_of:
  "try_body_rel (graph_of L) sys t response r \<longleftrightarrow> try_body L sys t response = r"
proof
  assume "try_body_rel (graph_of L) sys t response r"
  then show "try_body L sys t response = r"
    by cases (simp_all add: graph_of_def try_body_def)
next
  assume r: "try_body L sys t response = r"
  show "try_body_rel (graph_of L) sys t response r"
  proof (cases "step_info L sys t 0.02")
    case (Inl e)
    then have "step_info_rel (graph_of L) sys t 0.02 (Inl e)"
      by (simp add: graph_of_def)
    then have "try_body_rel (graph_of L) sys t response (Inl e)"
      by (rule info_raises)
    moreover have "r = Inl e"
      using r Inl by (simp add: try_body_def)
    ultimately show ?thesis by simp
  next
    case (Inr d)
    then have d: "step_info_rel (graph_of L) sys t 0.02 (Inr d)"
      by (simp add: graph_of_def)
    show ?thesis
    proof (cases "final_value response")
      case (Inl e)
      have "r = Inl e"
        using r Inr Inl by (simp add: try_body_def)
      with index_raises [OF d Inl] show ?thesis by simp
    next
      case fv: (Inr v)
      have "r = Inr (d(''SteadyStateError'' \<mapsto> 1.0 - v))"
        using r Inr fv by (simp add: try_body_def)
      with info_stored [OF d fv] show ?thesis by simp
    qed
  qed
qed

lemma simulate_rel_graph_of:
  "simulate_pid_with_metrics_rel (graph_of L) Kp Ki Kd Gs t out \<longleftrightarrow>
   simulate_pid_with_metrics L Kp Ki Kd Gs t = out"
proof
  assume "simulate_pid_with_metrics_rel (graph_of L) Kp Ki Kd Gs t out"
  then show "simulate_pid_with_metrics L Kp Ki Kd Gs t = out"
  proof cases
    case (system_raises e)
    from system_raises(2) have "system_to_sim L Kp Ki Kd Gs = Inl e"
      by (simp add: system_to_sim_rel_graph_of)
    with system_raises(1) show ?thesis
      by (simp add: simulate_pid_with_metrics_def)
  next
    case (solver_raises sys e)
    from solver_raises(2) have "system_to_sim L Kp Ki Kd Gs = Inr sys"
      by (simp add: system_to_sim_rel_graph_of)
    moreover from solver_raises(3) have "step_response L sys t = Inl e"
      by (simp add: graph_of_def)
    ultimately show ?thesis
      using solver_raises(1) by (simp add: simulate_pid_with_metrics_def)
  next
    case (primary sys time response info)
    from primary(2) have "system_to_sim L Kp Ki Kd Gs = Inr sys"
      by (simp add: system_to_sim_rel_graph_of)
    moreover from primary(3) have "step_response L sys t = Inr (time, response)"
      by (simp add: graph_of_def)
    moreover from primary(4) have "try_body L sys t response = Inr info"
      by (simp add: try_body_rel_graph_of)
    ultimately show ?thesis
      using primary(1) by (simp add: simulate_pid_with_metrics_def)
  next
    case (fallback sys time response e info)
    from fallback(2) have "system_to_sim L Kp Ki Kd Gs = Inr sys"
      by (simp add: system_to_sim_rel_graph_of)
    moreover from fallback(3) have "step_response L sys t = Inr (time, response)"
      by (simp add: graph_of_def)
    moreover from fallback(4) have "try_body L sys t response = Inl e"
      by (simp add: try_body_rel_graph_of)
    ultimately show ?thesis
      using fallback(1,5) by (simp add: simulate_pid_with_metrics_def)
  next
    case (handler_raises sys time response e e')
    from handler_raises(2) have "system_to_sim L Kp Ki Kd Gs = Inr sys"
      by (simp add: system_to_sim_rel_graph_of)
    moreover from handler_raises(3) have "step_response L sys t = Inr (time, response)"
      by (simp add: graph_of_def)
    moreover from handler_raises(4) have "try_body L sys t response = Inl e"
      by (simp add: try_body_rel_graph_of)
    ultimately show ?thesis
      using handler_raises(1,5) by (simp add: simulate_pid_with_metrics_def)
  qed
next
  assume out: "simulate_pid_with_metrics L Kp Ki Kd Gs t = out"
  show "simulate_pid_with_metrics_rel (graph_of L) Kp Ki Kd Gs t out"
  proof (cases "system_to_sim L Kp Ki Kd Gs")
    case (Inl e)
    then have "system_to_sim_rel (graph_of L) Kp Ki Kd Gs (Inl e)"
      by (simp add: system_to_sim_rel_graph_of)
    then have "simulate_pid_with_metrics_rel (graph_of L) Kp Ki Kd Gs t (Inl e)"
      by (rule system_raises)
    moreover have "out = Inl e"
      using out Inl by (simp add: simulate_pid_with_metrics_def)
    ultimately show ?thesis by simp
  next
    case S: (Inr sys)
    then have sys: "system_to_sim_rel (graph_of L) Kp Ki Kd Gs (Inr sys)"
      by (simp add: system_to_sim_rel_graph_of)
    show ?thesis
    proof (cases "step_response L sys t")
      case (Inl e)
      then have "step_response_rel (graph_of L) sys t (Inl e)"
        by (simp add: graph_of_def)
      with sys have "simulate_pid_with_metrics_rel (graph_of L) Kp Ki Kd Gs t (Inl e)"
        by (rule solver_raises)
      moreover have "out = Inl e"
        using out S Inl by (simp add: simulate_pid_with_metrics_def)
      ultimately show ?thesis by simp
    next
      case (Inr p)
      obtain time response where p: "p = (time, response)"
        by (cases p)
      have resp: "step_response L sys t = Inr (time, response)"
        using Inr p by simp
      then have solve: "step_response_rel (graph_of L) sys t (Inr (time, response))"
        by (simp add: graph_of_def)
      show ?thesis
      proof (cases "try_body L sys t response")
        case T: (Inr info)
        then have "try_body_rel (graph_of L) sys t response (Inr info)"
          by (simp add: try_body_rel_graph_of)
        with sys solve
        have "simulate_pid_with_metrics_rel (graph_of L) Kp Ki Kd Gs t
                (Inr (time, response, info))"
          by (rule primary)
        moreover have "out = Inr (time, response, info)"
          using out S resp T by (simp add: simulate_pid_with_metrics_def)
        ultimately show ?thesis by simp
      next
        case T: (Inl e)
        then have tr: "try_body_rel (graph_of L) sys t response (Inl e)"
          by (simp add: try_body_rel_graph_of)
        show ?thesis
        proof (cases "except_body response")
          case ex: (Inl e')
          have "out = Inl e'"
            using out S resp T ex by (simp add: simulate_pid_with_metrics_def)
          with handler_raises [OF sys solve tr ex] show ?thesis by simp
        next
          case ex: (Inr info)
          have "out = Inr (time, response, info)"
            using out S resp T ex by (simp add: simulate_pid_with_metrics_def)
          with fallback [OF sys solve tr ex] show ?thesis by simp
        qed
      qed
    qed
  qed
qed

lemma graph_of_deterministic: "deterministic (graph_of L)"
  by (simp add: deterministic_def graph_of_def)

lemma system_to_sim_rel_deterministic:
  assumes "deterministic R"
    and "system_to_sim_rel R Kp Ki Kd Gs r" and "system_to_sim_rel R Kp Ki Kd Gs r'"
  shows "r = r'"
  using assms(2,3,1)
proof (cases rule: system_to_sim_rel.cases)
  case open_loop
  with assms(3) show ?thesis
    by (auto elim: system_to_sim_rel.cases)
next
  case (mul_raises C e)
  from assms(3) show ?thesis
  proof cases
    case open_loop
    with mul_raises show ?thesis by simp
  next
    case m: (mul_raises C' e')
    with mul_raises assms(1) show ?thesis
      unfolding deterministic_def by (metis option.inject)
  next
    case c: (closed_loop C' CG)
    with mul_raises assms(1) have "(Inl e :: tf result) = Inr CG"
      unfolding deterministic_def by (metis option.inject)
    then show ?thesis by simp
  qed
next
  case (closed_loop C CG)
  from assms(3) show ?thesis
  proof cases
    case open_loop
    with closed_loop show ?thesis by simp
  next
    case m: (mul_raises C' e')
    with closed_loop assms(1) have "(Inl e' :: tf result) = Inr CG"
      unfolding deterministic_def by (metis option.inject)
    then show ?thesis by simp
  next
    case c: (closed_loop C' CG')
    with closed_loop assms(1) have "(Inr CG' :: tf result) = Inr CG"
      unfolding deterministic_def by (metis option.inject)
    with c closed_loop assms(1) show ?thesis
      unfolding deterministic_def by (metis sum.inject(2))
  qed
qed

lemma try_body_rel_deterministic:
  assumes "deterministic R"
    and "try_body_rel R sys t response r" and "try_body_rel R sys t response r'"
  shows "r = r'"
proof -
  have one: "a = b"
    if "step_info_rel R sys t 0.02 a" and "step_info_rel R sys t 0.02 b" for a b
    using assms(1) that unfolding deterministic_def by blast
  from assms(2) show ?thesis
  proof cases
    case (info_raises e)
    from assms(3) show ?thesis
    proof cases
      case i: (info_raises e')
      with info_raises one show ?thesis by blast
    next
      case i: (index_raises info e')
      with info_raises one [of "Inl e" "Inr info"] show ?thesis by simp
    next
      case i: (info_stored info fv)
      with info_raises one [of "Inl e" "Inr info"] show ?thesis by simp
    qed
  next
    case (index_raises info e)
    from assms(3) show ?thesis
    proof cases
      case i: (info_raises e')
      with index_raises one [of "Inl e'" "Inr info"] show ?thesis by simp
    next
      case i: (index_raises info' e')
      with index_raises show ?thesis by simp
    next
      case i: (info_stored info' fv)
      with index_raises show ?thesis by simp
    qed
  next
    case (info_stored info fv)
    from assms(3) show ?thesis
    proof cases
      case i: (info_raises e')
      with info_stored one [of "Inl e'" "Inr info"] show ?thesis by simp
    next
      case i: (index_raises info' e')
      with info_stored show ?thesis by simp
    next
      case i: (info_stored info' fv')
      with info_stored one [of "Inr info" "Inr info'"] show ?thesis by simp
    qed
  qed
qed

lemma simulate_rel_shape:
  assumes "simulate_pid_with_metrics_rel R Kp Ki Kd Gs t out"
  shows "\<exists>rs. system_to_sim_rel R Kp Ki Kd Gs rs \<and>
           (case rs of
              Inl e \<Rightarrow> out = Inl e
            | Inr sys \<Rightarrow>
                (\<exists>rr. step_response_rel R sys t rr \<and>
                   (case rr of
                      Inl e \<Rightarrow> out = Inl e
                    | Inr (time, response) \<Rightarrow>
                        (\<exists>rt. try_body_rel R sys t response rt \<and>
                           out =
                             (case rt of
                                Inr info \<Rightarrow> Inr (time, response, info)
                              | Inl e \<Rightarrow>
                                  (case except_body response of
                                     Inl e' \<Rightarrow> Inl e'
                                   | Inr info \<Rightarrow> Inr (time, response, info)))))))"
proof -
  from assms show ?thesis
  proof cases
    case (system_raises e)
    show ?thesis
      by (insert system_raises, rule exI [of _ "Inl e"], simp)
  next
    case (solver_raises sys e)
    show ?thesis
      by (insert solver_raises, rule exI [of _ "Inr sys"], simp,
          rule exI [of _ "Inl e"], simp)
  next
    case (primary sys time response info)
    show ?thesis
      by (insert primary, rule exI [of _ "Inr sys"], simp,
          rule exI [of _ "Inr (time, response)"], simp,
          rule exI [of _ "Inr info"], simp)
  next
    case (fallback sys time response e info)
    show ?thesis
      by (insert fallback, rule exI [of _ "Inr sys"], simp,
          rule exI [of _ "Inr (time, response)"], simp,
          rule exI [of _ "Inl e"], simp)
  next
    case (handler_raises sys time response e e')
    show ?thesis
      by (insert handler_raises, rule exI [of _ "Inr sys"], simp,
          rule exI [of _ "Inr (time, response)"], simp,
          rule exI [of _ "Inl e"], simp)
  qed
qed

section \<open>Running the model\<close>

text \<open>The equations that evaluate the model over the stand-in package.\<close>

lemmas flat_eval =
  system_to_sim_def Cs_def flat_control_def tf_mul_def tf_feedback_def zero_poly_def
  polyadd_def
  flat_step_response_def flat_step_info_def dc_value_def Gs_motor_def

lemma flat_control_step_info_keys: "step_info_keys flat_control"
  by (auto simp: step_info_keys_def flat_control_def flat_step_info_def split: option.splits)

section \<open>The controller builder\<close>

text \<open>
  Claim C1. The builder has five cases, tried in this order, so that each gain triple falls
  into exactly one: all gains zero, no controller; otherwise \<open>Ki = 0\<close> and \<open>Kd = 0\<close>,
  numerator \<open>[Kp]\<close> over denominator \<open>[1]\<close>; \<open>Ki = 0\<close> and \<open>Kd \<noteq> 0\<close>, \<open>[Kd, Kp]\<close> over \<open>[1]\<close>,
  which is not the form \<open>[Kd, Kp, 0]\<close> over \<open>[1, 0]\<close> with an integrator pole;
  \<open>Kd = 0\<close> and \<open>Ki \<noteq> 0\<close>, \<open>[Kp, Ki]\<close> over \<open>[1, 0]\<close>; otherwise \<open>[Kd, Kp, Ki]\<close> over \<open>[1, 0]\<close>.
\<close>

theorem Cs_five_cases:
  "(Kp = 0 \<and> Ki = 0 \<and> Kd = 0 \<longrightarrow> Cs Kp Ki Kd = None) \<and>
   (Kp \<noteq> 0 \<and> Ki = 0 \<and> Kd = 0 \<longrightarrow> Cs Kp Ki Kd = Some (TF [Kp] [1])) \<and>
   (Ki = 0 \<and> Kd \<noteq> 0 \<longrightarrow>
      Cs Kp Ki Kd = Some (TF [Kd, Kp] [1]) \<and> Cs Kp Ki Kd \<noteq> Some (TF [Kd, Kp, 0] [1, 0])) \<and>
   (Kd = 0 \<and> Ki \<noteq> 0 \<longrightarrow> Cs Kp Ki Kd = Some (TF [Kp, Ki] [1, 0])) \<and>
   (Ki \<noteq> 0 \<and> Kd \<noteq> 0 \<longrightarrow> Cs Kp Ki Kd = Some (TF [Kd, Kp, Ki] [1, 0]))"
  by (simp add: Cs_def)

theorem Cs_five_cases_witness:
  "Cs 0 0 0 = None \<and>
   Cs 10 0 0 = Some (TF [10] [1]) \<and>
   Cs 10 0 2 = Some (TF [2, 10] [1]) \<and> Cs 10 0 2 \<noteq> Some (TF [2, 10, 0] [1, 0]) \<and>
   Cs 10 40 0 = Some (TF [10, 40] [1, 0]) \<and>
   Cs 10 40 (3 / 2) = Some (TF [3 / 2, 10, 40] [1, 0])"
  using Cs_five_cases [of 0 0 0] Cs_five_cases [of 10 0 0] Cs_five_cases [of 10 0 2]
    Cs_five_cases [of 10 40 0] Cs_five_cases [of 10 40 "3 / 2"]
  by simp

section \<open>The fallback of the metrics extraction\<close>

text \<open>
  Claim C2. Whatever the gains, the plant and the grid: when the solver has returned a
  response with at least one sample and \<^verbatim>\<open>step_info\<close> raises, the function does not raise.
  It returns the solver's time and response, and the record with \<^verbatim>\<open>Overshoot\<close>,
  \<^verbatim>\<open>SettlingTime\<close> and \<^verbatim>\<open>RiseTime\<close> at 0.0 and \<^verbatim>\<open>SteadyStateError\<close> at 1.0 minus the
  last sample of that response.
\<close>

theorem step_info_failure_absorbed:
  assumes "system_to_sim L Kp Ki Kd Gs = Inr sys"
    and "step_response L sys t = Inr (time, response)"
    and "response \<noteq> []"
    and "step_info L sys t 0.02 = Inl e"
  shows "simulate_pid_with_metrics L Kp Ki Kd Gs t =
           Inr (time, response,
                [''SteadyStateError'' \<mapsto> 1.0 - last response, ''Overshoot'' \<mapsto> 0.0,
                 ''SettlingTime'' \<mapsto> 0.0, ''RiseTime'' \<mapsto> 0.0])"
  using assms
  by (simp add: simulate_pid_with_metrics_def try_body_def except_body_def final_value_def)

theorem step_info_failure_absorbed_witness:
  "system_to_sim flat_control (- 2) 0 0 Gs_motor = Inr (TF [- 10] [1, 11, 0]) \<and>
   step_response flat_control (TF [- 10] [1, 11, 0]) [0, 1, 2] = Inr ([0, 1, 2], [0, 0, 0]) \<and>
   [0, 0, 0] \<noteq> ([] :: real list) \<and>
   step_info flat_control (TF [- 10] [1, 11, 0]) [0, 1, 2] 0.02 =
     Inl (LibraryError ''no steady state'') \<and>
   simulate_pid_with_metrics flat_control (- 2) 0 0 Gs_motor [0, 1, 2] =
     Inr ([0, 1, 2], [0, 0, 0],
          [''SteadyStateError'' \<mapsto> 1, ''Overshoot'' \<mapsto> 0, ''SettlingTime'' \<mapsto> 0,
           ''RiseTime'' \<mapsto> 0])"
proof -
  have sys: "system_to_sim flat_control (- 2) 0 0 Gs_motor = Inr (TF [- 10] [1, 11, 0])"
    by (simp add: flat_eval)
  have resp: "step_response flat_control (TF [- 10] [1, 11, 0]) [0, 1, 2] =
                Inr ([0, 1, 2], [0, 0, 0])"
    by (simp add: flat_eval)
  have ne: "[0, 0, 0] \<noteq> ([] :: real list)"
    by simp
  have info: "step_info flat_control (TF [- 10] [1, 11, 0]) [0, 1, 2] 0.02 =
                Inl (LibraryError ''no steady state'')"
    by (simp add: flat_eval)
  show ?thesis
    using step_info_failure_absorbed [OF sys resp ne info] sys resp info by simp
qed

section \<open>The steady-state error\<close>

text \<open>
  Claim C3. Whenever the function returns, on the primary and on the fallback path alike,
  the response has a last sample and the entry \<^verbatim>\<open>SteadyStateError\<close> of the returned record
  is 1.0 minus that sample.
\<close>

theorem steady_state_error_from_last_sample:
  assumes "simulate_pid_with_metrics L Kp Ki Kd Gs t = Inr (time, response, info)"
  shows "response \<noteq> [] \<and> info ''SteadyStateError'' = Some (1.0 - last response)"
  using simulate_returns_cases [OF assms] by auto

theorem steady_state_error_from_last_sample_witness:
  "simulate_pid_with_metrics flat_control 10 0 0 Gs_motor [0, 1, 2] =
     Inr ([0, 1, 2], [5 / 6, 5 / 6, 5 / 6],
          [''RiseTime'' \<mapsto> 0, ''SettlingTime'' \<mapsto> 0, ''Overshoot'' \<mapsto> 0, ''Peak'' \<mapsto> 5 / 6,
           ''SteadyStateValue'' \<mapsto> 5 / 6, ''SteadyStateError'' \<mapsto> 1 / 6]) \<and>
   [''RiseTime'' \<mapsto> 0, ''SettlingTime'' \<mapsto> 0, ''Overshoot'' \<mapsto> 0, ''Peak'' \<mapsto> 5 / 6,
    ''SteadyStateValue'' \<mapsto> 5 / 6, ''SteadyStateError'' \<mapsto> 1 / 6] ''SteadyStateError'' =
     Some (1 - last [5 / 6, 5 / 6, 5 / 6 :: real]) \<and>
   simulate_pid_with_metrics flat_control (- 2) 0 0 Gs_motor [0, 1, 2] =
     Inr ([0, 1, 2], [0, 0, 0],
          [''SteadyStateError'' \<mapsto> 1, ''Overshoot'' \<mapsto> 0, ''SettlingTime'' \<mapsto> 0,
           ''RiseTime'' \<mapsto> 0]) \<and>
   [''SteadyStateError'' \<mapsto> 1, ''Overshoot'' \<mapsto> 0, ''SettlingTime'' \<mapsto> 0, ''RiseTime'' \<mapsto> 0]
     ''SteadyStateError'' = Some (1 - last [0, 0, 0 :: real])"
proof -
  have primary_run: "simulate_pid_with_metrics flat_control 10 0 0 Gs_motor [0, 1, 2] =
     Inr ([0, 1, 2], [5 / 6, 5 / 6, 5 / 6],
          [''RiseTime'' \<mapsto> 0, ''SettlingTime'' \<mapsto> 0, ''Overshoot'' \<mapsto> 0, ''Peak'' \<mapsto> 5 / 6,
           ''SteadyStateValue'' \<mapsto> 5 / 6, ''SteadyStateError'' \<mapsto> 1 / 6])"
    by (simp add: simulate_pid_with_metrics_def try_body_def final_value_def flat_eval)
  have fallback_run: "simulate_pid_with_metrics flat_control (- 2) 0 0 Gs_motor [0, 1, 2] =
     Inr ([0, 1, 2], [0, 0, 0],
          [''SteadyStateError'' \<mapsto> 1, ''Overshoot'' \<mapsto> 0, ''SettlingTime'' \<mapsto> 0,
           ''RiseTime'' \<mapsto> 0])"
    by (simp add: simulate_pid_with_metrics_def try_body_def except_body_def final_value_def
        flat_eval)
  show ?thesis
    using steady_state_error_from_last_sample [OF primary_run]
      steady_state_error_from_last_sample [OF fallback_run] primary_run fallback_run
    by simp
qed

section \<open>Open loop and closed loop\<close>

text \<open>
  Claim C4. With all three gains zero the simulated system is the plant itself, with no
  product and no feedback reduction: every time and response the function returns is what
  the solver returns for the plant on the same grid, and whenever the solver returns a
  response with at least one sample for the plant, the function returns it.
\<close>

theorem open_loop_is_plant_response:
  "system_to_sim L 0 0 0 Gs = Inr Gs \<and>
   (\<forall>time response info.
      simulate_pid_with_metrics L 0 0 0 Gs t = Inr (time, response, info) \<longrightarrow>
      step_response L Gs t = Inr (time, response)) \<and>
   (\<forall>time response.
      step_response L Gs t = Inr (time, response) \<and> response \<noteq> [] \<longrightarrow>
      (\<exists>info. simulate_pid_with_metrics L 0 0 0 Gs t = Inr (time, response, info)))"
proof -
  have sys: "system_to_sim L 0 0 0 Gs = Inr Gs"
    by (simp add: system_to_sim_def Cs_def)
  have only_plant: "step_response L Gs t = Inr (time, response)"
    if "simulate_pid_with_metrics L 0 0 0 Gs t = Inr (time, response, info)"
    for time response info
    using simulate_returns_cases [OF that] sys by auto
  have always_returns: "\<exists>info. simulate_pid_with_metrics L 0 0 0 Gs t = Inr (time, response, info)"
    if "step_response L Gs t = Inr (time, response)" and "response \<noteq> []"
    for time response
  proof (cases "step_info L Gs t 0.02")
    case (Inl e)
    from simulate_fallback [OF sys that Inl] show ?thesis by blast
  next
    case (Inr d)
    from simulate_primary [OF sys that Inr] show ?thesis by blast
  qed
  from sys only_plant always_returns show ?thesis by blast
qed

theorem open_loop_is_plant_response_witness:
  "system_to_sim flat_control 0 0 0 Gs_motor = Inr Gs_motor \<and>
   step_response flat_control Gs_motor [0, 1, 2] = Inr ([0, 1, 2], [1 / 2, 1 / 2, 1 / 2]) \<and>
   (\<exists>info. simulate_pid_with_metrics flat_control 0 0 0 Gs_motor [0, 1, 2] =
      Inr ([0, 1, 2], [1 / 2, 1 / 2, 1 / 2], info))"
proof -
  have resp: "step_response flat_control Gs_motor [0, 1, 2] =
                Inr ([0, 1, 2], [1 / 2, 1 / 2, 1 / 2])"
    by (simp add: flat_eval)
  show ?thesis
    using open_loop_is_plant_response [of flat_control Gs_motor "[0, 1, 2]"] resp by simp
qed

text \<open>
  Claim C5. With at least one gain nonzero a controller \<open>C\<close> is built and the system the
  function simulates is \<^verbatim>\<open>ct.feedback(C * Gs, 1)\<close>: the controller is multiplied by the plant
  first, the product is reduced under unity feedback second. Every time and response the
  function returns is what the solver returns for that system on the same grid, and
  whenever the solver returns a response with at least one sample for that system the
  function returns it, with the metrics \<^verbatim>\<open>step_info\<close> computes for that system. Over the
  transfer-function algebra the system exists unless a denominator is the zero polynomial,
  and at a point \<open>s\<close> where no denominator vanishes and \<open>1 + C(s) G(s)\<close> is not zero its
  denominator does not vanish either and its value is \<open>C(s) G(s) / (1 + C(s) G(s))\<close>.
\<close>

theorem closed_loop_is_feedback_of_product:
  assumes "Kp \<noteq> 0 \<or> Ki \<noteq> 0 \<or> Kd \<noteq> 0"
  shows "Cs Kp Ki Kd \<noteq> None \<and>
         (\<forall>C. Cs Kp Ki Kd = Some C \<longrightarrow>
           system_to_sim L Kp Ki Kd Gs =
             (case mul L C Gs of Inl e \<Rightarrow> Inl e | Inr CG \<Rightarrow> feedback L CG 1) \<and>
           (\<forall>time response info.
              simulate_pid_with_metrics L Kp Ki Kd Gs t = Inr (time, response, info) \<longrightarrow>
              (\<exists>CG S. mul L C Gs = Inr CG \<and> feedback L CG 1 = Inr S \<and>
                 step_response L S t = Inr (time, response))) \<and>
           (\<forall>CG S time response.
              mul L C Gs = Inr CG \<and> feedback L CG 1 = Inr S \<and>
              step_response L S t = Inr (time, response) \<and> response \<noteq> [] \<longrightarrow>
              (\<exists>info. simulate_pid_with_metrics L Kp Ki Kd Gs t = Inr (time, response, info) \<and>
                 (\<forall>d. step_info L S t 0.02 = Inr d \<longrightarrow>
                    info = d(''SteadyStateError'' \<mapsto> 1.0 - last response)))) \<and>
           (\<forall>CG S e.
              mul L C Gs = Inr CG \<and> feedback L CG 1 = Inr S \<and> step_response L S t = Inl e \<longrightarrow>
              simulate_pid_with_metrics L Kp Ki Kd Gs t = Inl e) \<and>
           (mul L = tf_mul \<and> feedback L = tf_feedback \<longrightarrow>
              ((\<exists>S. system_to_sim L Kp Ki Kd Gs = Inr S) \<longleftrightarrow>
                 \<not> zero_poly (den Gs) \<and>
                 \<not> zero_poly (polyadd (polymul (den C) (den Gs)) (polymul (num C) (num Gs)))) \<and>
              (\<forall>S s. system_to_sim L Kp Ki Kd Gs = Inr S \<and>
                 polyval (den C) s \<noteq> 0 \<and> polyval (den Gs) s \<noteq> 0 \<and>
                 1 + tf_value C s * tf_value Gs s \<noteq> 0 \<longrightarrow>
                 polyval (den S) s \<noteq> 0 \<and>
                 tf_value S s =
                   (tf_value C s * tf_value Gs s) / (1 + tf_value C s * tf_value Gs s))))"
proof (intro conjI [of "Cs Kp Ki Kd \<noteq> None"] allI impI)
  from assms show "Cs Kp Ki Kd \<noteq> None"
    by (simp add: Cs_def)
next
  fix C
  assume C: "Cs Kp Ki Kd = Some C"
  have sys: "system_to_sim L Kp Ki Kd Gs =
               (case mul L C Gs of Inl e \<Rightarrow> Inl e | Inr CG \<Rightarrow> feedback L CG 1)"
    by (simp add: system_to_sim_def C)
  have built: "system_to_sim L Kp Ki Kd Gs = Inr S"
    if "mul L C Gs = Inr CG" and "feedback L CG 1 = Inr S" for CG S
    using that by (simp add: sys)
  have only_closed_loop:
    "\<exists>CG S. mul L C Gs = Inr CG \<and> feedback L CG 1 = Inr S \<and>
       step_response L S t = Inr (time, response)"
    if "simulate_pid_with_metrics L Kp Ki Kd Gs t = Inr (time, response, info)"
    for time response info
  proof -
    from simulate_returns_cases [OF that] obtain S
      where S: "system_to_sim L Kp Ki Kd Gs = Inr S"
        and resp: "step_response L S t = Inr (time, response)"
      by blast
    from S obtain CG where "mul L C Gs = Inr CG" and "feedback L CG 1 = Inr S"
      unfolding sys by (cases "mul L C Gs") simp_all
    with resp show ?thesis by blast
  qed
  have always_returns:
    "\<exists>info. simulate_pid_with_metrics L Kp Ki Kd Gs t = Inr (time, response, info) \<and>
       (\<forall>d. step_info L S t 0.02 = Inr d \<longrightarrow>
          info = d(''SteadyStateError'' \<mapsto> 1.0 - last response))"
    if "mul L C Gs = Inr CG \<and> feedback L CG 1 = Inr S \<and>
        step_response L S t = Inr (time, response) \<and> response \<noteq> []"
    for CG S time response
  proof -
    from that have S: "system_to_sim L Kp Ki Kd Gs = Inr S"
      and resp: "step_response L S t = Inr (time, response)" and ne: "response \<noteq> []"
      by (simp_all add: built)
    show ?thesis
    proof (cases "step_info L S t 0.02")
      case (Inl e)
      from simulate_fallback [OF S resp ne Inl] Inl show ?thesis by simp
    next
      case (Inr d)
      from simulate_primary [OF S resp ne Inr] Inr show ?thesis by simp
    qed
  qed
  have solver_raises: "simulate_pid_with_metrics L Kp Ki Kd Gs t = Inl e"
    if "mul L C Gs = Inr CG \<and> feedback L CG 1 = Inr S \<and> step_response L S t = Inl e"
    for CG S e
  proof -
    from that have "system_to_sim L Kp Ki Kd Gs = Inr S" and "step_response L S t = Inl e"
      by (simp_all add: built)
    then show ?thesis
      by (simp add: simulate_pid_with_metrics_def)
  qed
  have exists: "(\<exists>S. system_to_sim L Kp Ki Kd Gs = Inr S) \<longleftrightarrow>
                 \<not> zero_poly (den Gs) \<and>
                 \<not> zero_poly (polyadd (polymul (den C) (den Gs)) (polymul (num C) (num Gs)))"
    if L: "mul L = tf_mul" "feedback L = tf_feedback"
    using Cs_den_not_zero [OF C]
    by (simp add: sys L tf_mul_def tf_feedback_def Let_def map_times_one)
  have "value": "polyval (den S) s \<noteq> 0 \<and>
                 tf_value S s =
                   (tf_value C s * tf_value Gs s) / (1 + tf_value C s * tf_value Gs s)"
    if L: "mul L = tf_mul" "feedback L = tf_feedback"
      and S: "system_to_sim L Kp Ki Kd Gs = Inr S \<and>
                 polyval (den C) s \<noteq> 0 \<and> polyval (den Gs) s \<noteq> 0 \<and>
                 1 + tf_value C s * tf_value Gs s \<noteq> 0"
    for S s
  proof -
    from S obtain CG where CG: "tf_mul C Gs = Inr CG" and fb: "tf_feedback CG 1 = Inr S"
      unfolding sys L by (cases "tf_mul C Gs") simp_all
    from S have "polyval (den C) s \<noteq> 0" "polyval (den Gs) s \<noteq> 0"
      "1 + tf_value C s * tf_value Gs s \<noteq> 0"
      by simp_all
    then show ?thesis
      by (rule feedback_of_product_value [OF CG fb])
  qed
  show "system_to_sim L Kp Ki Kd Gs =
          (case mul L C Gs of Inl e \<Rightarrow> Inl e | Inr CG \<Rightarrow> feedback L CG 1) \<and>
        (\<forall>time response info.
           simulate_pid_with_metrics L Kp Ki Kd Gs t = Inr (time, response, info) \<longrightarrow>
           (\<exists>CG S. mul L C Gs = Inr CG \<and> feedback L CG 1 = Inr S \<and>
              step_response L S t = Inr (time, response))) \<and>
        (\<forall>CG S time response.
           mul L C Gs = Inr CG \<and> feedback L CG 1 = Inr S \<and>
           step_response L S t = Inr (time, response) \<and> response \<noteq> [] \<longrightarrow>
           (\<exists>info. simulate_pid_with_metrics L Kp Ki Kd Gs t = Inr (time, response, info) \<and>
              (\<forall>d. step_info L S t 0.02 = Inr d \<longrightarrow>
                 info = d(''SteadyStateError'' \<mapsto> 1.0 - last response)))) \<and>
        (\<forall>CG S e.
           mul L C Gs = Inr CG \<and> feedback L CG 1 = Inr S \<and> step_response L S t = Inl e \<longrightarrow>
           simulate_pid_with_metrics L Kp Ki Kd Gs t = Inl e) \<and>
        (mul L = tf_mul \<and> feedback L = tf_feedback \<longrightarrow>
           ((\<exists>S. system_to_sim L Kp Ki Kd Gs = Inr S) \<longleftrightarrow>
              \<not> zero_poly (den Gs) \<and>
              \<not> zero_poly (polyadd (polymul (den C) (den Gs)) (polymul (num C) (num Gs)))) \<and>
           (\<forall>S s. system_to_sim L Kp Ki Kd Gs = Inr S \<and>
              polyval (den C) s \<noteq> 0 \<and> polyval (den Gs) s \<noteq> 0 \<and>
              1 + tf_value C s * tf_value Gs s \<noteq> 0 \<longrightarrow>
              polyval (den S) s \<noteq> 0 \<and>
              tf_value S s =
                (tf_value C s * tf_value Gs s) / (1 + tf_value C s * tf_value Gs s)))"
  proof (intro conjI allI impI)
    show "system_to_sim L Kp Ki Kd Gs =
            (case mul L C Gs of Inl e \<Rightarrow> Inl e | Inr CG \<Rightarrow> feedback L CG 1)"
      by (rule sys)
  next
    fix time response info
    assume "simulate_pid_with_metrics L Kp Ki Kd Gs t = Inr (time, response, info)"
    then show "\<exists>CG S. mul L C Gs = Inr CG \<and> feedback L CG 1 = Inr S \<and>
                 step_response L S t = Inr (time, response)"
      by (rule only_closed_loop)
  next
    fix CG S time response
    assume "mul L C Gs = Inr CG \<and> feedback L CG 1 = Inr S \<and>
            step_response L S t = Inr (time, response) \<and> response \<noteq> []"
    then show "\<exists>info. simulate_pid_with_metrics L Kp Ki Kd Gs t = Inr (time, response, info) \<and>
                 (\<forall>d. step_info L S t 0.02 = Inr d \<longrightarrow>
                    info = d(''SteadyStateError'' \<mapsto> 1.0 - last response))"
      by (rule always_returns)
  next
    fix CG S e
    assume "mul L C Gs = Inr CG \<and> feedback L CG 1 = Inr S \<and> step_response L S t = Inl e"
    then show "simulate_pid_with_metrics L Kp Ki Kd Gs t = Inl e"
      by (rule solver_raises)
  next
    assume L: "mul L = tf_mul \<and> feedback L = tf_feedback"
    then show "(\<exists>S. system_to_sim L Kp Ki Kd Gs = Inr S) \<longleftrightarrow>
                 \<not> zero_poly (den Gs) \<and>
                 \<not> zero_poly (polyadd (polymul (den C) (den Gs)) (polymul (num C) (num Gs)))"
      using exists by blast
  next
    fix S s
    assume L: "mul L = tf_mul \<and> feedback L = tf_feedback"
      and S: "system_to_sim L Kp Ki Kd Gs = Inr S \<and>
                 polyval (den C) s \<noteq> 0 \<and> polyval (den Gs) s \<noteq> 0 \<and>
                 1 + tf_value C s * tf_value Gs s \<noteq> 0"
    from L have "mul L = tf_mul" "feedback L = tf_feedback"
      by simp_all
    from "value" [OF this S]
    show "polyval (den S) s \<noteq> 0"
      and "tf_value S s =
             (tf_value C s * tf_value Gs s) / (1 + tf_value C s * tf_value Gs s)"
      by simp_all
  qed
qed

theorem closed_loop_is_feedback_of_product_witness:
  "(10::real) \<noteq> 0 \<and>
   Cs 10 0 0 = Some (TF [10] [1]) \<and>
   mul flat_control (TF [10] [1]) Gs_motor = Inr (TF [50] [1, 11, 10]) \<and>
   feedback flat_control (TF [50] [1, 11, 10]) 1 = Inr (TF [50] [1, 11, 60]) \<and>
   system_to_sim flat_control 10 0 0 Gs_motor = Inr (TF [50] [1, 11, 60]) \<and>
   step_response flat_control (TF [50] [1, 11, 60]) [0, 1, 2] =
     Inr ([0, 1, 2], [5 / 6, 5 / 6, 5 / 6]) \<and>
   [5 / 6, 5 / 6, 5 / 6] \<noteq> ([] :: real list) \<and>
   step_info flat_control (TF [50] [1, 11, 60]) [0, 1, 2] 0.02 =
     Inr [''RiseTime'' \<mapsto> 0, ''SettlingTime'' \<mapsto> 0, ''Overshoot'' \<mapsto> 0, ''Peak'' \<mapsto> 5 / 6,
          ''SteadyStateValue'' \<mapsto> 5 / 6] \<and>
   simulate_pid_with_metrics flat_control 10 0 0 Gs_motor [0, 1, 2] =
     Inr ([0, 1, 2], [5 / 6, 5 / 6, 5 / 6],
          [''RiseTime'' \<mapsto> 0, ''SettlingTime'' \<mapsto> 0, ''Overshoot'' \<mapsto> 0, ''Peak'' \<mapsto> 5 / 6,
           ''SteadyStateValue'' \<mapsto> 5 / 6, ''SteadyStateError'' \<mapsto> 1 / 6]) \<and>
   mul flat_control = tf_mul \<and> feedback flat_control = tf_feedback \<and>
   polyval (den (TF [10] [1])) 0 \<noteq> 0 \<and> polyval (den Gs_motor) 0 \<noteq> 0 \<and>
   1 + tf_value (TF [10] [1]) 0 * tf_value Gs_motor 0 \<noteq> 0 \<and>
   polyval (den (TF [50] [1, 11, 60])) 0 \<noteq> 0 \<and>
   tf_value (TF [50] [1, 11, 60]) 0 =
     (tf_value (TF [10] [1]) 0 * tf_value Gs_motor 0) /
     (1 + tf_value (TF [10] [1]) 0 * tf_value Gs_motor 0) \<and>
   tf_value (TF [50] [1, 11, 60]) 0 = 5 / 6"
proof -
  let ?C = "TF [10] [1]"
  let ?S = "TF [50] [1, 11, 60]"
  let ?d = "[''RiseTime'' \<mapsto> 0, ''SettlingTime'' \<mapsto> 0, ''Overshoot'' \<mapsto> 0, ''Peak'' \<mapsto> 5 / 6,
             ''SteadyStateValue'' \<mapsto> 5 / 6] :: info"
  have gains: "(10::real) \<noteq> 0 \<or> (0::real) \<noteq> 0 \<or> (0::real) \<noteq> 0"
    by simp
  have C: "Cs 10 0 0 = Some ?C"
    by (simp add: Cs_def)
  have m: "mul flat_control ?C Gs_motor = Inr (TF [50] [1, 11, 10])"
    by (simp add: flat_eval)
  have f: "feedback flat_control (TF [50] [1, 11, 10]) 1 = Inr ?S"
    by (simp add: flat_eval)
  have sys: "system_to_sim flat_control 10 0 0 Gs_motor = Inr ?S"
    by (simp add: flat_eval)
  have resp: "step_response flat_control ?S [0, 1, 2] = Inr ([0, 1, 2], [5 / 6, 5 / 6, 5 / 6])"
    by (simp add: flat_eval)
  have ne: "[5 / 6, 5 / 6, 5 / 6] \<noteq> ([] :: real list)"
    by simp
  have info: "step_info flat_control ?S [0, 1, 2] 0.02 = Inr ?d"
    by (simp add: flat_eval)
  have alg: "mul flat_control = tf_mul" "feedback flat_control = tf_feedback"
    by (simp_all add: flat_control_def)
  have pts: "polyval (den ?C) 0 \<noteq> 0" "polyval (den Gs_motor) 0 \<noteq> 0"
    "1 + tf_value ?C 0 * tf_value Gs_motor 0 \<noteq> 0"
    by (simp_all add: polyval_def tf_value_def Gs_motor_def)
  have val: "tf_value ?S 0 = 5 / 6"
    by (simp add: polyval_def tf_value_def)
  note paths =
    closed_loop_is_feedback_of_product [OF gains, of flat_control Gs_motor "[0, 1, 2]",
      THEN conjunct2, rule_format, OF C]
  note returns = paths [THEN conjunct2, THEN conjunct2, THEN conjunct1, rule_format]
  note algebra =
    paths [THEN conjunct2, THEN conjunct2, THEN conjunct2, THEN conjunct2, rule_format,
      THEN conjunct2, rule_format]
  from returns [OF conjI [OF m conjI [OF f conjI [OF resp ne]]]]
  obtain info' where run': "simulate_pid_with_metrics flat_control 10 0 0 Gs_motor [0, 1, 2] =
         Inr ([0, 1, 2], [5 / 6, 5 / 6, 5 / 6], info')"
    and metrics: "\<forall>d. step_info flat_control ?S [0, 1, 2] 0.02 = Inr d \<longrightarrow>
         info' = d(''SteadyStateError'' \<mapsto> 1.0 - last [5 / 6, 5 / 6, 5 / 6])"
    by (elim exE conjE)
  from metrics [rule_format, OF info] have "info' = ?d(''SteadyStateError'' \<mapsto> 1 / 6)"
    by simp
  with run' have run: "simulate_pid_with_metrics flat_control 10 0 0 Gs_motor [0, 1, 2] =
     Inr ([0, 1, 2], [5 / 6, 5 / 6, 5 / 6], ?d(''SteadyStateError'' \<mapsto> 1 / 6))"
    by (simp only:)
  have closed: "polyval (den ?S) 0 \<noteq> 0 \<and>
     tf_value ?S 0 =
       (tf_value ?C 0 * tf_value Gs_motor 0) / (1 + tf_value ?C 0 * tf_value Gs_motor 0)"
    by (rule algebra [OF conjI [OF alg],
          OF conjI [OF sys conjI [OF pts(1) conjI [OF pts(2) pts(3)]]]])
  note c1 = closed [THEN conjunct1] and c2 = closed [THEN conjunct2]
  have nz: "(10::real) \<noteq> 0"
    by simp
  from nz C m f sys resp ne info run alg pts c1 c2 val show ?thesis
    by (intro conjI)
qed

section \<open>The keys of the metrics record\<close>

text \<open>
  Claim C6. For any gains, plant and grid, pathological gains included: whenever the function
  returns, the record holds the four keys \<^verbatim>\<open>Overshoot\<close>, \<^verbatim>\<open>SettlingTime\<close>, \<^verbatim>\<open>RiseTime\<close> and
  \<^verbatim>\<open>SteadyStateError\<close>, on the primary path (where the first three come from the dictionary
  of \<^verbatim>\<open>step_info\<close>) and on the fallback path.
\<close>

theorem metrics_contain_required_keys:
  assumes "step_info_keys L"
    and "simulate_pid_with_metrics L Kp Ki Kd Gs t = Inr (time, response, info)"
  shows "required_keys \<subseteq> dom info"
proof -
  from simulate_returns_cases [OF assms(2)] obtain sys where
    paths: "(\<exists>d. step_info L sys t 0.02 = Inr d \<and>
                 info = d(''SteadyStateError'' \<mapsto> 1 - last response)) \<or>
            (\<exists>e. step_info L sys t 0.02 = Inl e \<and>
                 info = [''SteadyStateError'' \<mapsto> 1 - last response, ''Overshoot'' \<mapsto> 0,
                         ''SettlingTime'' \<mapsto> 0, ''RiseTime'' \<mapsto> 0])"
    by blast
  then show ?thesis
  proof
    assume "\<exists>d. step_info L sys t 0.02 = Inr d \<and>
                 info = d(''SteadyStateError'' \<mapsto> 1 - last response)"
    then obtain d where d: "step_info L sys t 0.02 = Inr d"
      and info: "info = d(''SteadyStateError'' \<mapsto> 1 - last response)"
      by blast
    from assms(1) d have "{''Overshoot'', ''SettlingTime'', ''RiseTime''} \<subseteq> dom d"
      unfolding step_info_keys_def by blast
    then show ?thesis
      unfolding info required_keys_def by auto
  next
    assume "\<exists>e. step_info L sys t 0.02 = Inl e \<and>
                 info = [''SteadyStateError'' \<mapsto> 1 - last response, ''Overshoot'' \<mapsto> 0,
                         ''SettlingTime'' \<mapsto> 0, ''RiseTime'' \<mapsto> 0]"
    then show ?thesis
      unfolding required_keys_def by auto
  qed
qed

theorem metrics_contain_required_keys_witness:
  "step_info_keys flat_control \<and>
   simulate_pid_with_metrics flat_control (- 1000) (- 1000) (- 1000) Gs_motor [0, 1, 2] =
     Inr ([0, 1, 2], [1, 1, 1],
        [''RiseTime'' \<mapsto> 0, ''SettlingTime'' \<mapsto> 0, ''Overshoot'' \<mapsto> 0, ''Peak'' \<mapsto> 1,
         ''SteadyStateValue'' \<mapsto> 1, ''SteadyStateError'' \<mapsto> 0]) \<and>
   required_keys \<subseteq>
     dom [''RiseTime'' \<mapsto> 0 :: real, ''SettlingTime'' \<mapsto> 0, ''Overshoot'' \<mapsto> 0, ''Peak'' \<mapsto> 1,
          ''SteadyStateValue'' \<mapsto> 1, ''SteadyStateError'' \<mapsto> 0]"
proof -
  have run: "simulate_pid_with_metrics flat_control (- 1000) (- 1000) (- 1000) Gs_motor [0, 1, 2] =
     Inr ([0, 1, 2], [1, 1, 1],
        [''RiseTime'' \<mapsto> 0, ''SettlingTime'' \<mapsto> 0, ''Overshoot'' \<mapsto> 0, ''Peak'' \<mapsto> 1,
         ''SteadyStateValue'' \<mapsto> 1, ''SteadyStateError'' \<mapsto> 0])"
    by (simp add: simulate_pid_with_metrics_def try_body_def final_value_def flat_eval)
  from metrics_contain_required_keys [OF flat_control_step_info_keys run]
    flat_control_step_info_keys run
  show ?thesis by simp
qed

text \<open>
  Claim C10. The two paths return records of different shape. On the fallback path the keys
  are exactly the four required ones. On the primary path they are the keys of the
  dictionary of \<^verbatim>\<open>step_info\<close> and \<^verbatim>\<open>SteadyStateError\<close>; when that dictionary holds a key
  beyond the required ones (\<^verbatim>\<open>Peak\<close>, say), the record has strictly more than the four.
\<close>

theorem metrics_keys_by_path:
  assumes "system_to_sim L Kp Ki Kd Gs = Inr sys"
    and "step_response L sys t = Inr (time, response)"
    and "response \<noteq> []"
  shows "(\<forall>e. step_info L sys t 0.02 = Inl e \<longrightarrow>
            (\<exists>info. simulate_pid_with_metrics L Kp Ki Kd Gs t = Inr (time, response, info) \<and>
               dom info = required_keys)) \<and>
         (\<forall>d. step_info L sys t 0.02 = Inr d \<longrightarrow>
            (\<exists>info. simulate_pid_with_metrics L Kp Ki Kd Gs t = Inr (time, response, info) \<and>
               dom info = insert ''SteadyStateError'' (dom d) \<and>
               (step_info_keys L \<and> \<not> dom d \<subseteq> required_keys \<longrightarrow> required_keys \<subset> dom info)))"
proof (intro conjI allI impI)
  fix e
  assume "step_info L sys t 0.02 = Inl e"
  from simulate_fallback [OF assms this]
  show "\<exists>info. simulate_pid_with_metrics L Kp Ki Kd Gs t = Inr (time, response, info) \<and>
          dom info = required_keys"
    by (auto simp: required_keys_def)
next
  fix d
  assume d: "step_info L sys t 0.02 = Inr d"
  let ?info = "d(''SteadyStateError'' \<mapsto> 1 - last response)"
  have run: "simulate_pid_with_metrics L Kp Ki Kd Gs t = Inr (time, response, ?info)"
    by (rule simulate_primary [OF assms d])
  have keys: "dom ?info = insert ''SteadyStateError'' (dom d)"
    by simp
  have more: "required_keys \<subset> dom ?info"
    if "step_info_keys L" and "\<not> dom d \<subseteq> required_keys"
  proof -
    from that(1) d have "{''Overshoot'', ''SettlingTime'', ''RiseTime''} \<subseteq> dom d"
      unfolding step_info_keys_def by blast
    then have "required_keys \<subseteq> dom ?info"
      unfolding keys required_keys_def by auto
    moreover from that(2) have "\<not> dom ?info \<subseteq> required_keys"
      unfolding keys by auto
    ultimately show ?thesis by auto
  qed
  from run keys more
  show "\<exists>info. simulate_pid_with_metrics L Kp Ki Kd Gs t = Inr (time, response, info) \<and>
          dom info = insert ''SteadyStateError'' (dom d) \<and>
          (step_info_keys L \<and> \<not> dom d \<subseteq> required_keys \<longrightarrow> required_keys \<subset> dom info)"
    by blast
qed

theorem metrics_keys_by_path_witness:
  "system_to_sim flat_control (- 2) 0 0 Gs_motor = Inr (TF [- 10] [1, 11, 0]) \<and>
   step_response flat_control (TF [- 10] [1, 11, 0]) [0, 1, 2] = Inr ([0, 1, 2], [0, 0, 0]) \<and>
   step_info flat_control (TF [- 10] [1, 11, 0]) [0, 1, 2] 0.02 =
     Inl (LibraryError ''no steady state'') \<and>
   (\<exists>info. simulate_pid_with_metrics flat_control (- 2) 0 0 Gs_motor [0, 1, 2] =
      Inr ([0, 1, 2], [0, 0, 0], info) \<and> dom info = required_keys) \<and>
   system_to_sim flat_control 10 0 0 Gs_motor = Inr (TF [50] [1, 11, 60]) \<and>
   step_response flat_control (TF [50] [1, 11, 60]) [0, 1, 2] =
     Inr ([0, 1, 2], [5 / 6, 5 / 6, 5 / 6]) \<and>
   step_info flat_control (TF [50] [1, 11, 60]) [0, 1, 2] 0.02 =
     Inr [''RiseTime'' \<mapsto> 0, ''SettlingTime'' \<mapsto> 0, ''Overshoot'' \<mapsto> 0, ''Peak'' \<mapsto> 5 / 6,
          ''SteadyStateValue'' \<mapsto> 5 / 6] \<and>
   step_info_keys flat_control \<and>
   ''Peak'' \<notin> required_keys \<and>
   (\<exists>info. simulate_pid_with_metrics flat_control 10 0 0 Gs_motor [0, 1, 2] =
      Inr ([0, 1, 2], [5 / 6, 5 / 6, 5 / 6], info) \<and>
      ''Peak'' \<in> dom info \<and> required_keys \<subset> dom info)"
proof -
  let ?d = "[''RiseTime'' \<mapsto> 0, ''SettlingTime'' \<mapsto> 0, ''Overshoot'' \<mapsto> 0, ''Peak'' \<mapsto> 5 / 6,
             ''SteadyStateValue'' \<mapsto> 5 / 6] :: info"
  have sys1: "system_to_sim flat_control (- 2) 0 0 Gs_motor = Inr (TF [- 10] [1, 11, 0])"
    by (simp add: flat_eval)
  have resp1: "step_response flat_control (TF [- 10] [1, 11, 0]) [0, 1, 2] =
                 Inr ([0, 1, 2], [0, 0, 0])"
    by (simp add: flat_eval)
  have ne1: "[0, 0, 0] \<noteq> ([] :: real list)"
    by simp
  have info1: "step_info flat_control (TF [- 10] [1, 11, 0]) [0, 1, 2] 0.02 =
                 Inl (LibraryError ''no steady state'')"
    by (simp add: flat_eval)
  have sys2: "system_to_sim flat_control 10 0 0 Gs_motor = Inr (TF [50] [1, 11, 60])"
    by (simp add: flat_eval)
  have resp2: "step_response flat_control (TF [50] [1, 11, 60]) [0, 1, 2] =
                 Inr ([0, 1, 2], [5 / 6, 5 / 6, 5 / 6])"
    by (simp add: flat_eval)
  have ne2: "[5 / 6, 5 / 6, 5 / 6] \<noteq> ([] :: real list)"
    by simp
  have info2: "step_info flat_control (TF [50] [1, 11, 60]) [0, 1, 2] 0.02 = Inr ?d"
    by (simp add: flat_eval)
  have peak: "''Peak'' \<notin> required_keys"
    by (simp add: required_keys_def)
  have peak_d: "''Peak'' \<in> dom ?d"
    by simp
  from peak peak_d have extra: "\<not> dom ?d \<subseteq> required_keys"
    by blast
  note fallback_path = metrics_keys_by_path [OF sys1 resp1 ne1, THEN conjunct1, rule_format]
  note primary_path = metrics_keys_by_path [OF sys2 resp2 ne2, THEN conjunct2, rule_format]
  have fallback_keys:
    "\<exists>info. simulate_pid_with_metrics flat_control (- 2) 0 0 Gs_motor [0, 1, 2] =
       Inr ([0, 1, 2], [0, 0, 0], info) \<and> dom info = required_keys"
    by (rule fallback_path [OF info1])
  from primary_path [OF info2] obtain info
    where run: "simulate_pid_with_metrics flat_control 10 0 0 Gs_motor [0, 1, 2] =
       Inr ([0, 1, 2], [5 / 6, 5 / 6, 5 / 6], info)"
      and keys: "dom info = insert ''SteadyStateError'' (dom ?d)"
      and more: "step_info_keys flat_control \<and> \<not> dom ?d \<subseteq> required_keys \<longrightarrow>
                 required_keys \<subset> dom info"
    by (elim exE conjE)
  from more flat_control_step_info_keys extra have strict: "required_keys \<subset> dom info"
    by (elim impE) (rule conjI)
  from peak_d have "''Peak'' \<in> insert ''SteadyStateError'' (dom ?d)"
    by (rule insertI2)
  then have "''Peak'' \<in> dom info"
    by (simp only: keys)
  with run strict
  have primary_keys:
    "\<exists>info. simulate_pid_with_metrics flat_control 10 0 0 Gs_motor [0, 1, 2] =
       Inr ([0, 1, 2], [5 / 6, 5 / 6, 5 / 6], info) \<and>
       ''Peak'' \<in> dom info \<and> required_keys \<subset> dom info"
    by (intro exI [of _ info] conjI)
  from sys1 resp1 info1 fallback_keys sys2 resp2 info2 flat_control_step_info_keys peak
    primary_keys
  show ?thesis by (intro conjI)
qed

section \<open>The pure gain\<close>

text \<open>
  Claim C7, as stated, takes \<open>Kp = 0\<close> in: with \<open>Ki = 0\<close> and \<open>Kd = 0\<close> the controller
  would be the constant gain \<open>Kp\<close> for every \<open>Kp\<close>. At \<open>Kp = 0\<close> the test of line 11 comes
  first and no controller is built at all.
\<close>

theorem pure_gain_counterexample:
  "Cs 0 0 0 = None \<and> Cs 0 0 0 \<noteq> Some (TF [0] [1])"
  by (simp add: Cs_def)

text \<open>
  Claim C7, amended. With \<open>Ki = 0\<close>, \<open>Kd = 0\<close> and \<open>Kp \<noteq> 0\<close> the controller built has
  numerator \<open>[Kp]\<close> and denominator \<open>[1]\<close>, both of order 0, and its value is \<open>Kp\<close> at every
  point.
\<close>

theorem pure_gain_for_nonzero_Kp:
  assumes "Ki = 0" and "Kd = 0" and "Kp \<noteq> 0"
  shows "\<exists>C. Cs Kp Ki Kd = Some C \<and> num C = [Kp] \<and> den C = [1] \<and> (\<forall>s. tf_value C s = Kp)"
  using assms by (simp add: Cs_def tf_value_def polyval_def)

theorem pure_gain_for_nonzero_Kp_witness:
  "(10::real) \<noteq> 0 \<and>
   (\<exists>C. Cs 10 0 0 = Some C \<and> num C = [10] \<and> den C = [1] \<and> (\<forall>s. tf_value C s = 10))"
proof -
  have z: "(0::real) = 0" and nz: "(10::real) \<noteq> 0"
    by simp_all
  from pure_gain_for_nonzero_Kp [OF z z nz] nz show ?thesis
    by simp
qed

section \<open>Exceptions of the solver\<close>

text \<open>
  Claim C9. The step response is computed before the \<^verbatim>\<open>try\<close>: when the solver raises, the
  function raises the same exception and returns no record; so it does when the product or
  the feedback reduction raises. Conversely, every record the
  function returns, the zero-filled one included, comes with a response the solver has
  returned; the handler absorbs nothing but exceptions of the metrics extraction.
\<close>

theorem solver_exception_propagates:
  "(\<forall>sys e. system_to_sim L Kp Ki Kd Gs = Inr sys \<and> step_response L sys t = Inl e \<longrightarrow>
      simulate_pid_with_metrics L Kp Ki Kd Gs t = Inl e) \<and>
   (\<forall>e. system_to_sim L Kp Ki Kd Gs = Inl e \<longrightarrow>
      simulate_pid_with_metrics L Kp Ki Kd Gs t = Inl e) \<and>
   (\<forall>time response info.
      simulate_pid_with_metrics L Kp Ki Kd Gs t = Inr (time, response, info) \<longrightarrow>
      (\<exists>sys. system_to_sim L Kp Ki Kd Gs = Inr sys \<and>
         step_response L sys t = Inr (time, response)))"
proof (intro conjI allI impI)
  fix sys e
  assume "system_to_sim L Kp Ki Kd Gs = Inr sys \<and> step_response L sys t = Inl e"
  then show "simulate_pid_with_metrics L Kp Ki Kd Gs t = Inl e"
    by (simp add: simulate_pid_with_metrics_def)
next
  fix e
  assume "system_to_sim L Kp Ki Kd Gs = Inl e"
  then show "simulate_pid_with_metrics L Kp Ki Kd Gs t = Inl e"
    by (simp add: simulate_pid_with_metrics_def)
next
  fix time response info
  assume "simulate_pid_with_metrics L Kp Ki Kd Gs t = Inr (time, response, info)"
  from simulate_returns_cases [OF this]
  show "\<exists>sys. system_to_sim L Kp Ki Kd Gs = Inr sys \<and>
          step_response L sys t = Inr (time, response)"
    by blast
qed

theorem solver_exception_propagates_witness:
  "system_to_sim flat_control 10 40 (3 / 2) Gs_motor =
     Inr (TF [15 / 2, 50, 200] [1, 37 / 2, 60, 200]) \<and>
   step_response flat_control (TF [15 / 2, 50, 200] [1, 37 / 2, 60, 200]) [] =
     Inl (LibraryError ''empty time vector'') \<and>
   simulate_pid_with_metrics flat_control 10 40 (3 / 2) Gs_motor [] =
     Inl (LibraryError ''empty time vector'')"
proof -
  have sys: "system_to_sim flat_control 10 40 (3 / 2) Gs_motor =
     Inr (TF [15 / 2, 50, 200] [1, 37 / 2, 60, 200])"
    by (simp add: flat_eval)
  have resp: "step_response flat_control (TF [15 / 2, 50, 200] [1, 37 / 2, 60, 200]) [] =
     Inl (LibraryError ''empty time vector'')"
    by (simp add: flat_eval)
  from solver_exception_propagates [of flat_control 10 40 "3 / 2" Gs_motor "[]"] sys resp
  show ?thesis by simp
qed

section \<open>Determinism\<close>

text \<open>
  Claim C8. Over a deterministic package, two calls of the function with the same gains, the
  same plant and the same time grid have the same outcome: the same time array, the same
  response and the same metrics record, or the same exception.
\<close>

theorem simulate_deterministic:
  assumes det: "deterministic R"
    and one: "simulate_pid_with_metrics_rel R Kp Ki Kd Gs t out"
    and two: "simulate_pid_with_metrics_rel R Kp Ki Kd Gs t out'"
  shows "out = out'"
proof -
  let ?after_try = "\<lambda>time response rt.
    (case rt of
       Inr info \<Rightarrow> Inr (time, response, info)
     | Inl e \<Rightarrow>
         (case except_body response of
            Inl e' \<Rightarrow> Inl e'
          | Inr info \<Rightarrow> Inr (time, response, info)))"
  let ?after_solve = "\<lambda>sys res rr.
    (case rr of
       Inl e \<Rightarrow> res = Inl e
     | Inr (time, response) \<Rightarrow>
         (\<exists>rt. try_body_rel R sys t response rt \<and> res = ?after_try time response rt))"
  let ?after_sys = "\<lambda>res rs.
    (case rs of
       Inl e \<Rightarrow> res = Inl e
     | Inr sys \<Rightarrow> (\<exists>rr. step_response_rel R sys t rr \<and> ?after_solve sys res rr))"
  from simulate_rel_shape [OF one] obtain rs
    where rs: "system_to_sim_rel R Kp Ki Kd Gs rs" and a: "?after_sys out rs"
    by blast
  from simulate_rel_shape [OF two] obtain rs'
    where rs': "system_to_sim_rel R Kp Ki Kd Gs rs'" and a': "?after_sys out' rs'"
    by blast
  have same_sys: "rs' = rs"
    using system_to_sim_rel_deterministic [OF det rs' rs] .
  show ?thesis
  proof (cases rs)
    case (Inl e)
    with a a' same_sys show ?thesis by simp
  next
    case (Inr sys)
    from a Inr obtain rr
      where rr: "step_response_rel R sys t rr" and b: "?after_solve sys out rr"
      by auto
    from a' same_sys Inr obtain rr'
      where rr': "step_response_rel R sys t rr'" and b': "?after_solve sys out' rr'"
      by auto
    have same_resp: "rr' = rr"
      using det rr rr' unfolding deterministic_def by blast
    show ?thesis
    proof (cases rr)
      case (Inl e)
      with b b' same_resp show ?thesis by simp
    next
      case solved: (Inr p)
      obtain time response where p: "p = (time, response)"
        by (cases p)
      from b solved p obtain rt
        where rt: "try_body_rel R sys t response rt" and c: "out = ?after_try time response rt"
        by auto
      from b' same_resp solved p obtain rt'
        where rt': "try_body_rel R sys t response rt'"
          and c': "out' = ?after_try time response rt'"
        by auto
      have "rt' = rt"
        using try_body_rel_deterministic [OF det rt' rt] .
      with c c' show ?thesis by simp
    qed
  qed
qed

theorem simulate_deterministic_witness:
  "deterministic (graph_of flat_control) \<and>
   simulate_pid_with_metrics_rel (graph_of flat_control) 10 0 0 Gs_motor [0, 1, 2]
     (simulate_pid_with_metrics flat_control 10 0 0 Gs_motor [0, 1, 2]) \<and>
   simulate_pid_with_metrics_rel (graph_of flat_control) 10 0 0 Gs_motor [0, 1, 2]
     (Inr ([0, 1, 2], [5 / 6, 5 / 6, 5 / 6],
        [''RiseTime'' \<mapsto> 0, ''SettlingTime'' \<mapsto> 0, ''Overshoot'' \<mapsto> 0, ''Peak'' \<mapsto> 5 / 6,
         ''SteadyStateValue'' \<mapsto> 5 / 6, ''SteadyStateError'' \<mapsto> 1 / 6])) \<and>
   simulate_pid_with_metrics flat_control 10 0 0 Gs_motor [0, 1, 2] =
     Inr ([0, 1, 2], [5 / 6, 5 / 6, 5 / 6],
        [''RiseTime'' \<mapsto> 0, ''SettlingTime'' \<mapsto> 0, ''Overshoot'' \<mapsto> 0, ''Peak'' \<mapsto> 5 / 6,
         ''SteadyStateValue'' \<mapsto> 5 / 6, ''SteadyStateError'' \<mapsto> 1 / 6])"
proof -
  let ?R = "graph_of flat_control"
  let ?out = "Inr ([0, 1, 2], [5 / 6, 5 / 6, 5 / 6],
        [''RiseTime'' \<mapsto> 0, ''SettlingTime'' \<mapsto> 0, ''Overshoot'' \<mapsto> 0, ''Peak'' \<mapsto> 5 / 6,
         ''SteadyStateValue'' \<mapsto> 5 / 6, ''SteadyStateError'' \<mapsto> 1 / 6])
        :: (real list \<times> real list \<times> info) result"
  have det: "deterministic ?R"
    by (rule graph_of_deterministic)
  have one: "simulate_pid_with_metrics_rel ?R 10 0 0 Gs_motor [0, 1, 2]
               (simulate_pid_with_metrics flat_control 10 0 0 Gs_motor [0, 1, 2])"
    by (simp add: simulate_rel_graph_of)
  have sys: "system_to_sim_rel ?R 10 0 0 Gs_motor (Inr (TF [50] [1, 11, 60]))"
  proof (rule closed_loop)
    show "Cs 10 0 0 = Some (TF [10] [1])"
      by (simp add: Cs_def)
    show "mul_rel ?R (TF [10] [1]) Gs_motor (Inr (TF [50] [1, 11, 10]))"
      by (simp add: graph_of_def flat_eval)
    show "feedback_rel ?R (TF [50] [1, 11, 10]) 1 (Inr (TF [50] [1, 11, 60]))"
      by (simp add: graph_of_def flat_eval)
  qed
  have solve: "step_response_rel ?R (TF [50] [1, 11, 60]) [0, 1, 2]
                 (Inr ([0, 1, 2], [5 / 6, 5 / 6, 5 / 6]))"
    by (simp add: graph_of_def flat_eval)
  have info: "step_info_rel ?R (TF [50] [1, 11, 60]) [0, 1, 2] 0.02
                (Inr [''RiseTime'' \<mapsto> 0, ''SettlingTime'' \<mapsto> 0, ''Overshoot'' \<mapsto> 0,
                      ''Peak'' \<mapsto> 5 / 6, ''SteadyStateValue'' \<mapsto> 5 / 6])"
    by (simp add: graph_of_def flat_eval)
  have fv: "final_value [5 / 6, 5 / 6, 5 / 6] = Inr (5 / 6)"
    by (simp add: final_value_def)
  have two: "simulate_pid_with_metrics_rel ?R 10 0 0 Gs_motor [0, 1, 2] ?out"
    using primary [OF sys solve info_stored [OF info fv]] by simp
  from simulate_deterministic [OF det one two] det one two show ?thesis
    by simp
qed

end
